theory Spec2Isabelle
  imports Main "HOL-Library.Word"
begin

unbundle bit_operations_syntax

section \<open>Data model (MS5611SPI.h)\<close>

text \<open>
  The driver's types, as the header declares them. Fixed-width C integers are machine
  words: \<open>uint8_t\<close> is \<open>8 word\<close>, \<open>uint16_t\<close> is \<open>16 word\<close>, \<open>uint32_t\<close> and
  \<open>int32_t\<close> are \<open>32 word\<close> (read with \<open>unat\<close>/\<open>uint\<close> or \<open>sint\<close>), \<open>int64_t\<close>
  is \<open>64 word\<close>. Pointers to peripherals are plain addresses.
\<close>

type_synonym uint8_t = "8 word"
type_synonym uint16_t = "16 word"
type_synonym uint32_t = "32 word"
type_synonym int32_t = "32 word"
type_synonym int64_t = "64 word"

datatype MS5611StateTypeDef =
    MS5611_STATE_FAILED
  | MS5611_STATE_READY
  | MS5611_STATE_BUSY
  | MS5611_HAL_ERROR

record promData =
  reserved :: uint16_t
  sens :: uint16_t
  off :: uint16_t
  tcs :: uint16_t
  tco :: uint16_t
  tref :: uint16_t
  tempsens :: uint16_t
  crc :: uint16_t

record MS5611_Raw_Data_TypeDef =
  raw_pressure :: uint32_t
  raw_temperature :: uint32_t

record MS5611_Converted_Data_TypeDef =
  pressure :: int32_t
  temperature :: int32_t

record MS5611_HW_InitTypeDef =
  SPIhandler :: nat
  CS_GPIOport :: nat
  CS_GPIOpin :: uint16_t
  SPI_Timeout :: uint8_t

section \<open>Compensation (MS5611\_Data\_Convert)\<close>

text \<open>
  One definition per local variable of \<open>MS5611_Data_Convert\<close>, in the order of the
  source. A cast \<open>(int64_t) x\<close> of a signed 32-bit value is the sign extension
  \<open>scast\<close>, of an unsigned 16- or 32-bit value the zero extension \<open>ucast\<close>; an
  assignment of a 64-bit value to an \<open>int32_t\<close> keeps the low 32 bits; \<open>>>\<close> on a
  signed operand is the arithmetic shift \<open>signed_drop_bit\<close>; 32-bit arithmetic
  wraps around, as it does on the Cortex-M target (C itself leaves signed overflow
  undefined).
\<close>

definition Convert_dT :: "promData \<Rightarrow> MS5611_Raw_Data_TypeDef \<Rightarrow> int32_t" where
  "Convert_dT prom sample = raw_temperature sample - push_bit 8 (ucast (tref prom))"

definition Convert_TEMP :: "promData \<Rightarrow> int32_t \<Rightarrow> int32_t" where
  "Convert_TEMP prom dT =
     ucast ((2000 :: int64_t) + signed_drop_bit 23 ((scast dT :: int64_t) * ucast (tempsens prom)))"

definition Convert_OFF :: "promData \<Rightarrow> int32_t \<Rightarrow> int64_t" where
  "Convert_OFF prom dT =
     push_bit 16 (ucast (off prom)) + signed_drop_bit 7 (ucast (tco prom) * scast dT)"

definition Convert_SENS :: "promData \<Rightarrow> int32_t \<Rightarrow> int64_t" where
  "Convert_SENS prom dT =
     push_bit 15 (ucast (sens prom)) + signed_drop_bit 8 (ucast (tcs prom) * scast dT)"

definition Convert_T2 :: "int32_t \<Rightarrow> int32_t" where
  "Convert_T2 dT = ucast (signed_drop_bit 31 ((scast dT :: int64_t) * scast dT))"

definition Convert_TEMPP2 :: "int32_t \<Rightarrow> int32_t" where
  "Convert_TEMPP2 TEMP = (let TEMPP = TEMP + 1500 in TEMPP * TEMPP)"

definition Convert_OFF2 :: "int32_t \<Rightarrow> int64_t" where
  "Convert_OFF2 TEMP =
     (let TEMPM = TEMP - 2000;
          OFF2 = signed_drop_bit 1 (5 * scast TEMPM * scast TEMPM)
      in if TEMP <s - 1500 then OFF2 + 7 * scast (Convert_TEMPP2 TEMP) else OFF2)"

definition Convert_SENS2 :: "int32_t \<Rightarrow> int64_t" where
  "Convert_SENS2 TEMP =
     (let TEMPM = TEMP - 2000;
          SENS2 = signed_drop_bit 2 (5 * scast TEMPM * scast TEMPM)
      in if TEMP <s - 1500
         then SENS2 + signed_drop_bit 1 (11 * scast (Convert_TEMPP2 TEMP))
         else SENS2)"

definition MS5611_Data_Convert ::
  "promData \<Rightarrow> MS5611_Raw_Data_TypeDef \<Rightarrow> MS5611_Converted_Data_TypeDef" where
  "MS5611_Data_Convert prom sample =
     (let dT = Convert_dT prom sample;
          TEMP = Convert_TEMP prom dT;
          OFF = Convert_OFF prom dT;
          SENS = Convert_SENS prom dT;
          (TEMP, OFF, SENS) =
            (if TEMP <s 2000
             then (TEMP - Convert_T2 dT, OFF - Convert_OFF2 TEMP, SENS - Convert_SENS2 TEMP)
             else (TEMP, OFF, SENS))
      in \<lparr> pressure =
             ucast (signed_drop_bit 15
               (signed_drop_bit 21 (ucast (raw_pressure sample) * SENS) - OFF)),
           temperature = TEMP \<rparr>)"

text \<open>The calibration table of the MS5611 datasheet's worked example.\<close>

definition datasheet_prom :: promData where
  "datasheet_prom =
     \<lparr> reserved = 0, sens = 40127, off = 36924, tcs = 23317, tco = 23282,
       tref = 33464, tempsens = 28312, crc = 0 \<rparr>"

section \<open>The bus: SPI transfers, the chip-select pin, delays\<close>

text \<open>
  The driver reaches the sensor through four functions of the STM32 HAL, which is not
  part of the driver: \<open>HAL_GPIO_WritePin\<close>, \<open>HAL_SPI_Transmit\<close>, \<open>HAL_SPI_Receive\<close>
  and \<open>HAL_Delay\<close>. Every call is recorded, with its arguments, in a trace (oldest
  event first). What a transfer returns is a parameter of the model, the \<open>spi_bus\<close>:
  any function of the trace up to and including the call, so that a transfer may
  succeed or fail at any point and deliver any bytes.
\<close>

datatype HAL_StatusTypeDef = HAL_OK | HAL_ERROR | HAL_BUSY | HAL_TIMEOUT

datatype GPIO_PinState = GPIO_PIN_RESET | GPIO_PIN_SET

datatype bus_event =
    Ev_GPIO_WritePin nat uint16_t GPIO_PinState
  | Ev_SPI_Transmit nat "uint8_t list" nat
  | Ev_SPI_Receive nat nat nat
  | Ev_Delay nat

record spi_bus =
  tx_status :: "bus_event list \<Rightarrow> HAL_StatusTypeDef"
  rx_status :: "bus_event list \<Rightarrow> HAL_StatusTypeDef"
  rx_count :: "bus_event list \<Rightarrow> nat"
  rx_byte :: "bus_event list \<Rightarrow> nat \<Rightarrow> uint8_t"

text \<open>
  Modelled from the spec: \<open>HAL_GPIO_WritePin\<close> and \<open>HAL_Delay\<close> (STM32 HAL, outside the
  driver) drive a pin and wait; they return nothing and cannot fail.
\<close>

definition HAL_GPIO_WritePin ::
  "nat \<Rightarrow> uint16_t \<Rightarrow> GPIO_PinState \<Rightarrow> bus_event list \<Rightarrow> bus_event list" where
  "HAL_GPIO_WritePin GPIOx GPIO_Pin PinState tr = tr @ [Ev_GPIO_WritePin GPIOx GPIO_Pin PinState]"

definition HAL_Delay :: "nat \<Rightarrow> bus_event list \<Rightarrow> bus_event list" where
  "HAL_Delay ms tr = tr @ [Ev_Delay ms]"

text \<open>
  Modelled from the spec: \<open>HAL_SPI_Transmit\<close> (STM32 HAL, outside the driver) sends the
  bytes \<open>pData\<close> with the given timeout and reports success or failure.
\<close>

definition HAL_SPI_Transmit ::
  "spi_bus \<Rightarrow> nat \<Rightarrow> uint8_t list \<Rightarrow> nat \<Rightarrow> bus_event list
     \<Rightarrow> HAL_StatusTypeDef \<times> bus_event list" where
  "HAL_SPI_Transmit bus hspi pData Timeout tr =
     (let tr' = tr @ [Ev_SPI_Transmit hspi pData Timeout] in (tx_status bus tr', tr'))"

text \<open>
  Modelled from the spec: \<open>HAL_SPI_Receive\<close> (STM32 HAL, outside the driver) returns
  exactly \<open>Size\<close> bytes on success; on failure it may have stored a prefix of them.
  The result lists the bytes it stored at \<open>pData\<close>, first byte first.
\<close>

definition HAL_SPI_Receive ::
  "spi_bus \<Rightarrow> nat \<Rightarrow> nat \<Rightarrow> nat \<Rightarrow> bus_event list
     \<Rightarrow> HAL_StatusTypeDef \<times> uint8_t list \<times> bus_event list" where
  "HAL_SPI_Receive bus hspi Size Timeout tr =
     (let tr' = tr @ [Ev_SPI_Receive hspi Size Timeout];
          st = rx_status bus tr';
          n = (if st = HAL_OK then Size else min Size (rx_count bus tr'))
      in (st, map (rx_byte bus tr') [0..<n], tr'))"

definition enableCS_MS5611 :: "nat \<Rightarrow> uint16_t \<Rightarrow> bus_event list \<Rightarrow> bus_event list" where
  "enableCS_MS5611 CS_GPIOport' CS_GPIOpin' tr =
     HAL_GPIO_WritePin CS_GPIOport' CS_GPIOpin' GPIO_PIN_RESET tr"

definition disableCS_MS5611 :: "nat \<Rightarrow> uint16_t \<Rightarrow> bus_event list \<Rightarrow> bus_event list" where
  "disableCS_MS5611 CS_GPIOport' CS_GPIOpin' tr =
     HAL_GPIO_WritePin CS_GPIOport' CS_GPIOpin' GPIO_PIN_SET tr"

section \<open>Commands (MS5611SPI.h)\<close>

definition RESET_COMMAND :: uint8_t where
  "RESET_COMMAND = 0x1E"

definition PROM_READ :: "nat \<Rightarrow> uint8_t" where
  "PROM_READ address = 0xA0 OR push_bit 1 (of_nat address)"

definition CONVERT_D1_COMMAND :: uint8_t where
  "CONVERT_D1_COMMAND = 0x40"

definition CONVERT_D2_COMMAND :: uint8_t where
  "CONVERT_D2_COMMAND = 0x50"

definition READ_ADC_COMMAND :: uint8_t where
  "READ_ADC_COMMAND = 0x00"

section \<open>The calibration table as memory\<close>

text \<open>
  \<open>MS5611PromRead\<close> reads the table through a \<open>uint16_t *\<close> (\<open>structPointer\<close>) and
  each word through a \<open>uint8_t *\<close> (\<open>toSwap\<close>). The struct has eight \<open>uint16_t\<close>
  fields and no padding, so \<open>structPointer[i]\<close> is field \<open>i\<close>; the target is
  little-endian, so byte 0 of a word is its low byte.
\<close>

definition get_word :: "promData \<Rightarrow> nat \<Rightarrow> uint16_t" where
  "get_word prom i =
     (if i = 0 then reserved prom else if i = 1 then sens prom
      else if i = 2 then off prom else if i = 3 then tcs prom
      else if i = 4 then tco prom else if i = 5 then tref prom
      else if i = 6 then tempsens prom else crc prom)"

definition set_word :: "promData \<Rightarrow> nat \<Rightarrow> uint16_t \<Rightarrow> promData" where
  "set_word prom i w =
     (if i = 0 then prom\<lparr>reserved := w\<rparr> else if i = 1 then prom\<lparr>sens := w\<rparr>
      else if i = 2 then prom\<lparr>off := w\<rparr> else if i = 3 then prom\<lparr>tcs := w\<rparr>
      else if i = 4 then prom\<lparr>tco := w\<rparr> else if i = 5 then prom\<lparr>tref := w\<rparr>
      else if i = 6 then prom\<lparr>tempsens := w\<rparr> else prom\<lparr>crc := w\<rparr>)"

definition word_bytes :: "uint16_t \<Rightarrow> uint8_t list" where
  "word_bytes w = [ucast w, ucast (drop_bit 8 w)]"

definition bytes_word :: "uint8_t list \<Rightarrow> uint16_t" where
  "bytes_word bs = ucast (bs ! 0) OR push_bit 8 (ucast (bs ! 1))"

text \<open>The bytes \<open>bs\<close> (at most two) stored over the first bytes of the word \<open>w\<close>.\<close>

definition store_bytes :: "uint8_t list \<Rightarrow> uint16_t \<Rightarrow> uint16_t" where
  "store_bytes bs w = bytes_word (bs @ drop (length bs) (word_bytes w))"

text \<open>Lines 97 to 100: the two bytes of one word exchanged in place.\<close>

definition swap_word :: "uint16_t \<Rightarrow> uint16_t" where
  "swap_word w =
     (let toSwap = word_bytes w;
          secondByte = toSwap ! 0;
          toSwap = toSwap[0 := toSwap ! 1];
          toSwap = toSwap[1 := secondByte]
      in bytes_word toSwap)"

section \<open>The protocol driver (MS5611SPI.c)\<close>

text \<open>
  Each operation takes the bus, the handler and the trace so far, and returns its status
  with the new trace. The static \<open>promData\<close> of the driver and the cell \<open>*raw_data\<close>
  are passed in and returned. A local that the source assigns twice is bound twice.
\<close>

subsection \<open>MS5611PromRead\<close>

text \<open>
  The first loop (lines 75 to 93). \<open>Some st\<close> is the early \<open>return st\<close>, \<open>None\<close> is
  the loop left at \<open>address = 8\<close>. \<open>HAL_SPI_Receive\<close> stores into the word at
  \<open>structPointer\<close>, also when it fails.
\<close>

function PromRead_read_loop ::
  "spi_bus \<Rightarrow> MS5611_HW_InitTypeDef \<Rightarrow> nat \<Rightarrow> promData \<Rightarrow> bus_event list
     \<Rightarrow> MS5611StateTypeDef option \<times> promData \<times> bus_event list" where
  "PromRead_read_loop bus h address prom tr =
     (if address < 8 then
        (let SPITransmitData = PROM_READ address;
             tr = enableCS_MS5611 (CS_GPIOport h) (CS_GPIOpin h) tr;
             (st, tr) = HAL_SPI_Transmit bus (SPIhandler h) [SPITransmitData] 10 tr
         in if st \<noteq> HAL_OK
            then (Some MS5611_HAL_ERROR, prom,
                  disableCS_MS5611 (CS_GPIOport h) (CS_GPIOpin h) tr)
            else
              (let (st, bytes, tr) = HAL_SPI_Receive bus (SPIhandler h) 2 10 tr;
                   prom = set_word prom address (store_bytes bytes (get_word prom address))
               in if st \<noteq> HAL_OK
                  then (Some MS5611_HAL_ERROR, prom,
                        disableCS_MS5611 (CS_GPIOport h) (CS_GPIOpin h) tr)
                  else PromRead_read_loop bus h (address + 1) prom
                         (disableCS_MS5611 (CS_GPIOport h) (CS_GPIOpin h) tr)))
      else (None, prom, tr))"
  by pat_completeness auto
termination
  by (relation "measure (\<lambda>(bus, h, address, prom, tr). 8 - address)") auto

declare PromRead_read_loop.simps [simp del]

text \<open>The second loop (lines 96 to 102).\<close>

function PromRead_swap_loop :: "nat \<Rightarrow> promData \<Rightarrow> promData" where
  "PromRead_swap_loop address prom =
     (if address < 8
      then PromRead_swap_loop (address + 1)
             (set_word prom address (swap_word (get_word prom address)))
      else prom)"
  by pat_completeness auto
termination
  by (relation "measure (\<lambda>(address, prom). 8 - address)") auto

declare PromRead_swap_loop.simps [simp del]

definition MS5611PromRead ::
  "spi_bus \<Rightarrow> MS5611_HW_InitTypeDef \<Rightarrow> promData \<Rightarrow> bus_event list
     \<Rightarrow> MS5611StateTypeDef \<times> promData \<times> bus_event list" where
  "MS5611PromRead bus h prom tr =
     (case PromRead_read_loop bus h 0 prom tr of
        (Some st, prom, tr) \<Rightarrow> (st, prom, tr)
      | (None, prom, tr) \<Rightarrow> (MS5611_STATE_READY, PromRead_swap_loop 0 prom, tr))"

subsection \<open>MS5611\_Init\<close>

definition MS5611_Init ::
  "spi_bus \<Rightarrow> MS5611_HW_InitTypeDef \<Rightarrow> promData \<Rightarrow> bus_event list
     \<Rightarrow> MS5611StateTypeDef \<times> promData \<times> bus_event list" where
  "MS5611_Init bus MS5611_Handler prom tr =
     (let tr = enableCS_MS5611 (CS_GPIOport MS5611_Handler) (CS_GPIOpin MS5611_Handler) tr;
          SPITransmitData = RESET_COMMAND;
          (st, tr) = HAL_SPI_Transmit bus (SPIhandler MS5611_Handler) [SPITransmitData] 10 tr
      in if st \<noteq> HAL_OK
         then (MS5611_HAL_ERROR, prom,
               disableCS_MS5611 (CS_GPIOport MS5611_Handler) (CS_GPIOpin MS5611_Handler) tr)
         else
           (let tr = HAL_Delay 3 tr;
                tr = disableCS_MS5611 (CS_GPIOport MS5611_Handler) (CS_GPIOpin MS5611_Handler) tr;
                (ignored, prom, tr) = MS5611PromRead bus MS5611_Handler prom tr
            in if off prom = 0x00 \<or> tref prom = 0xff
               then (MS5611_STATE_FAILED, prom, tr)
               else (MS5611_STATE_READY, prom, tr)))"

subsection \<open>Starting a conversion\<close>

definition MS5611_Pressure_Conversion ::
  "spi_bus \<Rightarrow> MS5611_HW_InitTypeDef \<Rightarrow> uint8_t \<Rightarrow> bus_event list
     \<Rightarrow> MS5611StateTypeDef \<times> bus_event list" where
  "MS5611_Pressure_Conversion bus MS5611_Handler MS5611_Press_OSR tr =
     (let tr = enableCS_MS5611 (CS_GPIOport MS5611_Handler) (CS_GPIOpin MS5611_Handler) tr;
          SPITransmitData = CONVERT_D1_COMMAND OR MS5611_Press_OSR;
          (st, tr) = HAL_SPI_Transmit bus (SPIhandler MS5611_Handler) [SPITransmitData] 10 tr
      in if st \<noteq> HAL_OK
         then (MS5611_HAL_ERROR,
               disableCS_MS5611 (CS_GPIOport MS5611_Handler) (CS_GPIOpin MS5611_Handler) tr)
         else (MS5611_STATE_BUSY,
               disableCS_MS5611 (CS_GPIOport MS5611_Handler) (CS_GPIOpin MS5611_Handler) tr))"

definition MS5611_Temperature_Conversion ::
  "spi_bus \<Rightarrow> MS5611_HW_InitTypeDef \<Rightarrow> uint8_t \<Rightarrow> bus_event list
     \<Rightarrow> MS5611StateTypeDef \<times> bus_event list" where
  "MS5611_Temperature_Conversion bus MS5611_Handler MS5611_Temp_OSR tr =
     (let tr = enableCS_MS5611 (CS_GPIOport MS5611_Handler) (CS_GPIOpin MS5611_Handler) tr;
          SPITransmitData = CONVERT_D2_COMMAND OR MS5611_Temp_OSR;
          (st, tr) = HAL_SPI_Transmit bus (SPIhandler MS5611_Handler) [SPITransmitData] 10 tr
      in if st \<noteq> HAL_OK
         then (MS5611_HAL_ERROR,
               disableCS_MS5611 (CS_GPIOport MS5611_Handler) (CS_GPIOpin MS5611_Handler) tr)
         else (MS5611_STATE_BUSY,
               disableCS_MS5611 (CS_GPIOport MS5611_Handler) (CS_GPIOpin MS5611_Handler) tr))"

subsection \<open>MS5611\_ADC\_Read\<close>

text \<open>
  \<open>reply\<close> is the local three-byte buffer. It is read only after a successful receive,
  which has stored all three bytes.
\<close>

definition MS5611_ADC_Read ::
  "spi_bus \<Rightarrow> MS5611_HW_InitTypeDef \<Rightarrow> uint32_t \<Rightarrow> bus_event list
     \<Rightarrow> MS5611StateTypeDef \<times> uint32_t \<times> bus_event list" where
  "MS5611_ADC_Read bus MS5611_Handler raw_data tr =
     (let tr = enableCS_MS5611 (CS_GPIOport MS5611_Handler) (CS_GPIOpin MS5611_Handler) tr;
          SPITransmitData = READ_ADC_COMMAND;
          (st, tr) = HAL_SPI_Transmit bus (SPIhandler MS5611_Handler) [SPITransmitData] 10 tr
      in if st \<noteq> HAL_OK
         then (MS5611_HAL_ERROR, raw_data,
               disableCS_MS5611 (CS_GPIOport MS5611_Handler) (CS_GPIOpin MS5611_Handler) tr)
         else
           (let (st, reply, tr) = HAL_SPI_Receive bus (SPIhandler MS5611_Handler) 3 10 tr
            in if st \<noteq> HAL_OK
               then (MS5611_HAL_ERROR, raw_data,
                     disableCS_MS5611 (CS_GPIOport MS5611_Handler) (CS_GPIOpin MS5611_Handler) tr)
               else
                 (let tr = disableCS_MS5611 (CS_GPIOport MS5611_Handler)
                             (CS_GPIOpin MS5611_Handler) tr;
                      raw_data = push_bit 16 (ucast (reply ! 0)) OR push_bit 8 (ucast (reply ! 1))
                                   OR ucast (reply ! 2)
                  in (MS5611_STATE_READY, raw_data, tr))))"

section \<open>Buses to run the driver on\<close>

text \<open>The command byte of the latest transmit in a trace (\<open>c\<close> when there is none).\<close>

fun last_command :: "uint8_t \<Rightarrow> bus_event list \<Rightarrow> uint8_t" where
  "last_command c [] = c"
| "last_command c (Ev_SPI_Transmit hspi pData Timeout # es) =
     last_command (case pData of [] \<Rightarrow> c | b # bs \<Rightarrow> b) es"
| "last_command c (Ev_GPIO_WritePin GPIOx GPIO_Pin PinState # es) = last_command c es"
| "last_command c (Ev_SPI_Receive hspi Size Timeout # es) = last_command c es"
| "last_command c (Ev_Delay ms # es) = last_command c es"

text \<open>
  A sensor that answers every transfer: a PROM read command with the addressed word of
  \<open>prom\<close>, most significant byte first, the ADC read command with the three bytes of
  \<open>adc\<close>, most significant first.
\<close>

definition sensor :: "promData \<Rightarrow> uint32_t \<Rightarrow> spi_bus" where
  "sensor prom adc =
     \<lparr> tx_status = (\<lambda>tr. HAL_OK),
       rx_status = (\<lambda>tr. HAL_OK),
       rx_count = (\<lambda>tr. 0),
       rx_byte = (\<lambda>tr i.
         let c = last_command 0 tr
         in if c = READ_ADC_COMMAND then ucast (drop_bit (8 * (2 - i)) adc)
            else (let w = get_word prom (unat (drop_bit 1 (c AND 0x0E)))
                  in if i = 0 then ucast (drop_bit 8 w) else ucast w)) \<rparr>"

text \<open>No sensor on the bus: every transfer completes and the data line reads high.\<close>

definition no_sensor :: spi_bus where
  "no_sensor =
     \<lparr> tx_status = (\<lambda>tr. HAL_OK), rx_status = (\<lambda>tr. HAL_OK),
       rx_count = (\<lambda>tr. 0), rx_byte = (\<lambda>tr i. 0xFF) \<rparr>"

text \<open>The bus \<open>bus\<close> until the trace has \<open>n\<close> events; every later transfer times out.\<close>

definition unplugged_after :: "nat \<Rightarrow> spi_bus \<Rightarrow> spi_bus" where
  "unplugged_after n bus =
     bus \<lparr> tx_status := (\<lambda>tr. if length tr \<le> n then tx_status bus tr else HAL_TIMEOUT),
           rx_status := (\<lambda>tr. if length tr \<le> n then rx_status bus tr else HAL_TIMEOUT) \<rparr>"

text \<open>The driver's static \<open>promData\<close> at program start, and a handler.\<close>

definition zero_prom :: promData where
  "zero_prom =
     \<lparr> reserved = 0, sens = 0, off = 0, tcs = 0, tco = 0, tref = 0, tempsens = 0, crc = 0 \<rparr>"

definition handler0 :: MS5611_HW_InitTypeDef where
  "handler0 = \<lparr> SPIhandler = 1, CS_GPIOport = 2, CS_GPIOpin = 0x0010, SPI_Timeout = 100 \<rparr>"

section \<open>Properties of a trace\<close>

text \<open>A transfer with the timeout of 10 ms that the driver writes into every call.\<close>

fun hardcoded_timeout :: "bus_event \<Rightarrow> bool" where
  "hardcoded_timeout (Ev_SPI_Transmit hspi pData Timeout) = (Timeout = 10)"
| "hardcoded_timeout (Ev_SPI_Receive hspi Size Timeout) = (Timeout = 10)"
| "hardcoded_timeout (Ev_GPIO_WritePin GPIOx GPIO_Pin PinState) = True"
| "hardcoded_timeout (Ev_Delay ms) = True"

text \<open>
  The chip-select discipline of a run of events, started with the sensor selected or
  not: every pin write is to the handler's chip-select pin, the pin is driven low
  (selecting the sensor) only when it is high and high only when it is low, every
  transfer happens while the sensor is selected, and the run ends with the sensor
  released.
\<close>

fun cs_framed :: "MS5611_HW_InitTypeDef \<Rightarrow> bool \<Rightarrow> bus_event list \<Rightarrow> bool" where
  "cs_framed h selected [] = (\<not> selected)"
| "cs_framed h selected (Ev_GPIO_WritePin GPIOx GPIO_Pin PinState # es) =
     (GPIOx = CS_GPIOport h \<and> GPIO_Pin = CS_GPIOpin h \<and>
      (case PinState of
         GPIO_PIN_RESET \<Rightarrow> \<not> selected \<and> cs_framed h True es
       | GPIO_PIN_SET \<Rightarrow> selected \<and> cs_framed h False es))"
| "cs_framed h selected (Ev_SPI_Transmit hspi pData Timeout # es) =
     (selected \<and> cs_framed h selected es)"
| "cs_framed h selected (Ev_SPI_Receive hspi Size Timeout # es) =
     (selected \<and> cs_framed h selected es)"
| "cs_framed h selected (Ev_Delay ms # es) = cs_framed h selected es"

text \<open>The events of one complete PROM read transaction, for word \<open>i\<close>.\<close>

definition prom_transaction :: "MS5611_HW_InitTypeDef \<Rightarrow> nat \<Rightarrow> bus_event list" where
  "prom_transaction h i =
     [Ev_GPIO_WritePin (CS_GPIOport h) (CS_GPIOpin h) GPIO_PIN_RESET,
      Ev_SPI_Transmit (SPIhandler h) [0xA0 OR push_bit 1 (of_nat i)] 10,
      Ev_SPI_Receive (SPIhandler h) 2 10,
      Ev_GPIO_WritePin (CS_GPIOport h) (CS_GPIOpin h) GPIO_PIN_SET]"

text \<open>
  The trace at which the receive of word \<open>i\<close> is answered, when the loop was entered
  at \<open>address = a\<close> with the trace \<open>tr\<close> and every earlier transaction completed.
\<close>

definition rx_point ::
  "MS5611_HW_InitTypeDef \<Rightarrow> bus_event list \<Rightarrow> nat \<Rightarrow> nat \<Rightarrow> bus_event list" where
  "rx_point h tr a i =
     tr @ concat (map (prom_transaction h) [a..<i]) @ take 3 (prom_transaction h i)"

text \<open>The events of the reset transaction of \<open>MS5611_Init\<close>.\<close>

definition reset_transaction :: "MS5611_HW_InitTypeDef \<Rightarrow> bus_event list" where
  "reset_transaction h =
     [Ev_GPIO_WritePin (CS_GPIOport h) (CS_GPIOpin h) GPIO_PIN_RESET,
      Ev_SPI_Transmit (SPIhandler h) [0x1E] 10,
      Ev_Delay 3,
      Ev_GPIO_WritePin (CS_GPIOport h) (CS_GPIOpin h) GPIO_PIN_SET]"

text \<open>
  Whether a transfer among the events \<open>es\<close>, issued after the trace \<open>tr\<close>, failed on
  the bus.
\<close>

fun transfer_failed :: "spi_bus \<Rightarrow> bus_event list \<Rightarrow> bus_event list \<Rightarrow> bool" where
  "transfer_failed bus tr [] = False"
| "transfer_failed bus tr (Ev_SPI_Transmit hspi pData Timeout # es) =
     (tx_status bus (tr @ [Ev_SPI_Transmit hspi pData Timeout]) \<noteq> HAL_OK
      \<or> transfer_failed bus (tr @ [Ev_SPI_Transmit hspi pData Timeout]) es)"
| "transfer_failed bus tr (Ev_SPI_Receive hspi Size Timeout # es) =
     (rx_status bus (tr @ [Ev_SPI_Receive hspi Size Timeout]) \<noteq> HAL_OK
      \<or> transfer_failed bus (tr @ [Ev_SPI_Receive hspi Size Timeout]) es)"
| "transfer_failed bus tr (Ev_GPIO_WritePin GPIOx GPIO_Pin PinState # es) =
     transfer_failed bus (tr @ [Ev_GPIO_WritePin GPIOx GPIO_Pin PinState]) es"
| "transfer_failed bus tr (Ev_Delay ms # es) = transfer_failed bus (tr @ [Ev_Delay ms]) es"

section \<open>Compensation: the datasheet example, the boundary, the very-cold branch\<close>

lemmas Convert_defs =
  Convert_dT_def Convert_TEMP_def Convert_OFF_def Convert_SENS_def
  Convert_T2_def Convert_TEMPP2_def Convert_OFF2_def Convert_SENS2_def

text \<open>
  C1, as stated, fails: with the datasheet's calibration table the raw sample
  (pressure 6465444, temperature 8077636) is not converted to temperature 2007 and a
  pressure within one unit of the datasheet's 100009.
\<close>

theorem MS5611_Data_Convert_claimed_sample_counterexample:
  "\<not> (sint (temperature (MS5611_Data_Convert datasheet_prom
            \<lparr> raw_pressure = 6465444, raw_temperature = 8077636 \<rparr>)) = 2007
      \<and> \<bar>sint (pressure (MS5611_Data_Convert datasheet_prom
            \<lparr> raw_pressure = 6465444, raw_temperature = 8077636 \<rparr>)) - 100009\<bar> \<le> 1)"
  by (simp add: MS5611_Data_Convert_def datasheet_prom_def Convert_defs)

text \<open>
  C1, amended: with the datasheet's calibration table, \<open>MS5611_Data_Convert\<close> maps the raw
  sample of the datasheet's worked example (D1 = 9085466, D2 = 8569150) to temperature
  2007 and pressure 100009, exactly; the raw sample (6465444, 8077636) is mapped to
  temperature 238 and pressure 48272.
\<close>

theorem MS5611_Data_Convert_datasheet_example:
  "MS5611_Data_Convert datasheet_prom \<lparr> raw_pressure = 9085466, raw_temperature = 8569150 \<rparr>
     = \<lparr> pressure = 100009, temperature = 2007 \<rparr>
   \<and> MS5611_Data_Convert datasheet_prom \<lparr> raw_pressure = 6465444, raw_temperature = 8077636 \<rparr>
     = \<lparr> pressure = 48272, temperature = 238 \<rparr>"
  by (simp add: MS5611_Data_Convert_def datasheet_prom_def Convert_defs)

text \<open>
  C7: for every calibration table with reference temperature 0 and all coefficients 0,
  \<open>MS5611_Data_Convert\<close> on raw temperature 0 computes TEMP = 2000 exactly, the guard
  \<open>TEMP < 2000\<close> of the low-temperature branch is false, and the result is the
  uncorrected one.
\<close>

theorem MS5611_Data_Convert_boundary:
  assumes "tref prom = 0" and "sens prom = 0" and "off prom = 0" and "tcs prom = 0"
    and "tco prom = 0" and "tempsens prom = 0" and "raw_temperature sample = 0"
  shows "Convert_TEMP prom (Convert_dT prom sample) = 2000
     \<and> \<not> (Convert_TEMP prom (Convert_dT prom sample) <s 2000)
     \<and> MS5611_Data_Convert prom sample = \<lparr> pressure = 0, temperature = 2000 \<rparr>"
  using assms by (simp add: MS5611_Data_Convert_def Convert_defs)

theorem MS5611_Data_Convert_boundary_witness:
  "Convert_TEMP (zero_prom\<lparr>crc := 11\<rparr>)
       (Convert_dT (zero_prom\<lparr>crc := 11\<rparr>) \<lparr> raw_pressure = 6465444, raw_temperature = 0 \<rparr>) = 2000
   \<and> \<not> (Convert_TEMP (zero_prom\<lparr>crc := 11\<rparr>)
       (Convert_dT (zero_prom\<lparr>crc := 11\<rparr>) \<lparr> raw_pressure = 6465444, raw_temperature = 0 \<rparr>) <s 2000)
   \<and> MS5611_Data_Convert (zero_prom\<lparr>crc := 11\<rparr>) \<lparr> raw_pressure = 6465444, raw_temperature = 0 \<rparr>
       = \<lparr> pressure = 0, temperature = 2000 \<rparr>"
  using MS5611_Data_Convert_boundary [of "zero_prom\<lparr>crc := 11\<rparr>"
      "\<lparr> raw_pressure = 6465444, raw_temperature = 0 \<rparr>"]
  by (simp add: zero_prom_def)

text \<open>
  C3 fails on the code. \<open>TEMPP2 = TEMPP * TEMPP\<close> is a 32-bit product, widened to 64
  bits only afterwards. With the datasheet's table but reference temperature 60000 and
  raw temperature 0, TEMP is -49841, below -1500, and the square of TEMP + 1500, 2336852281,
  does not fit 32 bits: \<open>TEMPP2\<close> is -1958115015, \<open>OFF2\<close> is -6988081903 where the exact
  value is 23076689169, and \<open>SENS2\<close> is -7410270982 where the exact value is
  16212049146.
\<close>

theorem Convert_TEMPP2_overflows:
  "Convert_TEMP (datasheet_prom\<lparr>tref := 60000\<rparr>)
      (Convert_dT (datasheet_prom\<lparr>tref := 60000\<rparr>) \<lparr> raw_pressure = 0, raw_temperature = 0 \<rparr>)
     = - 49841
   \<and> (- 49841 :: int32_t) <s - 1500
   \<and> sint (Convert_TEMPP2 (- 49841)) = - 1958115015
   \<and> sint (Convert_OFF2 (- 49841)) = - 6988081903
   \<and> (5 * (- 49841 - 2000) ^ 2) div 2 + 7 * (- 49841 + 1500) ^ 2 = (23076689169 :: int)
   \<and> sint (Convert_SENS2 (- 49841)) = - 7410270982
   \<and> (5 * (- 49841 - 2000) ^ 2) div 4 + (11 * (- 49841 + 1500) ^ 2) div 2 = (16212049146 :: int)"
  by (simp add: datasheet_prom_def Convert_defs)

lemma sq_bound: "\<bar>x\<bar> \<le> c \<Longrightarrow> x\<^sup>2 \<le> (c::int)\<^sup>2"
  by (metis abs_ge_zero order_trans power2_le_iff_abs_le)

lemma sint_mult_exact:
  "- (2 ^ (LENGTH('a) - 1)) \<le> sint a * sint b \<Longrightarrow> sint a * sint b < 2 ^ (LENGTH('a) - 1)
     \<Longrightarrow> sint (a * b :: 'a::len word) = sint a * sint b"
  by (simp only: sint_word_ariths signed_take_bit_int_eq_self)

lemma sint_add_exact:
  "- (2 ^ (LENGTH('a) - 1)) \<le> sint a + sint b \<Longrightarrow> sint a + sint b < 2 ^ (LENGTH('a) - 1)
     \<Longrightarrow> sint (a + b :: 'a::len word) = sint a + sint b"
  by (simp only: sint_word_ariths signed_take_bit_int_eq_self)

lemma sint_scast_32_64: "sint (scast (w :: int32_t) :: int64_t) = sint w"
proof -
  have "- (2 ^ 31) \<le> sint w" "sint w < 2 ^ 31"
    using sint_greater_eq [of w] sint_less [of w] by simp_all
  then show ?thesis
    by (simp add: signed_scast_eq signed_take_bit_int_eq_self)
qed

text \<open>
  Where the square does fit, the very-cold corrections are the exact ones: for TEMP from
  -47840 up to (not including) -1500, \<open>OFF2\<close> is the sum of 5 (TEMP - 2000) squared / 2
  and 7 (TEMP + 1500) squared, and \<open>SENS2\<close> the sum of 5 (TEMP - 2000) squared / 4 and
  11 (TEMP + 1500) squared / 2, with divisions rounding down. (46340 squared is the
  largest square that fits a signed 32-bit integer.)
\<close>

lemma very_cold_exact_in_range:
  assumes cold: "TEMP <s - 1500" and range: "- 47840 \<le> sint TEMP"
  shows "sint (Convert_OFF2 TEMP) = (5 * (sint TEMP - 2000)\<^sup>2) div 2 + 7 * (sint TEMP + 1500)\<^sup>2
    \<and> sint (Convert_SENS2 TEMP) = (5 * (sint TEMP - 2000)\<^sup>2) div 4 + (11 * (sint TEMP + 1500)\<^sup>2) div 2"
proof -
  define t where "t = sint TEMP"
  define M :: int64_t where "M = scast (TEMP - 2000)"
  define P :: int64_t where "P = scast ((TEMP + 1500) * (TEMP + 1500))"
  define m where "m = (t - 2000) * (t - 2000)"
  define p where "p = (t + 1500) * (t + 1500)"
  have t: "- 47840 \<le> t" "t < - 1500"
    using cold range by (simp_all add: t_def word_sless_alt)
  have "(t - 2000)\<^sup>2 \<le> 49840\<^sup>2" using t by (intro sq_bound) simp
  then have m: "0 \<le> m" "m \<le> 2484025600"
    by (simp_all add: m_def power2_eq_square)
  have "(t + 1500)\<^sup>2 \<le> 46340\<^sup>2" using t by (intro sq_bound) simp
  then have p: "0 \<le> p" "p \<le> 2147395600"
    by (simp_all add: p_def power2_eq_square)
  have sm: "sint (TEMP - 2000) = t - 2000"
    using t by (simp add: sint_word_ariths t_def [symmetric] signed_take_bit_int_eq_self)
  have sp: "sint (TEMP + 1500) = t + 1500"
    using t by (simp add: sint_word_ariths t_def [symmetric] signed_take_bit_int_eq_self)
  have sM: "sint M = t - 2000"
    by (simp add: M_def sint_scast_32_64 sm)
  have "sint ((TEMP + 1500) * (TEMP + 1500)) = sint (TEMP + 1500) * sint (TEMP + 1500)"
    using p by (intro sint_mult_exact) (simp_all add: sp p_def [symmetric])
  then have sP: "sint P = p"
    by (simp add: P_def sint_scast_32_64 sp p_def)
  have s5M: "sint (5 * M) = 5 * (t - 2000)"
    using t by (subst sint_mult_exact) (simp_all add: sM)
  have e: "sint (5 * M) * sint M = 5 * m"
    by (simp add: s5M sM m_def)
  have "sint (5 * M * M) = sint (5 * M) * sint M"
  proof (rule sint_mult_exact)
    show "- (2 ^ (LENGTH(64) - 1)) \<le> sint (5 * M) * sint M"
      unfolding e using m by simp
    show "sint (5 * M) * sint M < 2 ^ (LENGTH(64) - 1)"
      unfolding e using m by simp
  qed
  then have mm: "sint (5 * M * M) = 5 * m"
    by (simp only: e)
  have s7: "sint (7 * P) = 7 * p"
    using p by (subst sint_mult_exact) (simp_all add: sP)
  have s11: "sint (11 * P) = 11 * p"
    using p by (subst sint_mult_exact) (simp_all add: sP)
  have d1: "sint (signed_drop_bit 1 (5 * M * M)) = (5 * m) div 2"
    by (simp add: sint_signed_drop_bit_eq mm drop_bit_eq_div)
  have d2: "sint (signed_drop_bit 2 (5 * M * M)) = (5 * m) div 4"
    by (simp add: sint_signed_drop_bit_eq mm drop_bit_eq_div)
  have d11: "sint (signed_drop_bit 1 (11 * P)) = (11 * p) div 2"
    by (simp add: sint_signed_drop_bit_eq s11 drop_bit_eq_div)
  have off2: "sint (signed_drop_bit 1 (5 * M * M) + 7 * P) = (5 * m) div 2 + 7 * p"
  proof -
    have "sint (signed_drop_bit 1 (5 * M * M) + 7 * P)
        = sint (signed_drop_bit 1 (5 * M * M)) + sint (7 * P)"
    proof (rule sint_add_exact)
      show "- (2 ^ (LENGTH(64) - 1)) \<le> sint (signed_drop_bit 1 (5 * M * M)) + sint (7 * P)"
        unfolding d1 s7 using m p by simp
      show "sint (signed_drop_bit 1 (5 * M * M)) + sint (7 * P) < 2 ^ (LENGTH(64) - 1)"
        unfolding d1 s7 using m p by simp
    qed
    then show ?thesis by (simp only: d1 s7)
  qed
  have sens2: "sint (signed_drop_bit 2 (5 * M * M) + signed_drop_bit 1 (11 * P))
      = (5 * m) div 4 + (11 * p) div 2"
  proof -
    have "sint (signed_drop_bit 2 (5 * M * M) + signed_drop_bit 1 (11 * P))
        = sint (signed_drop_bit 2 (5 * M * M)) + sint (signed_drop_bit 1 (11 * P))"
    proof (rule sint_add_exact)
      show "- (2 ^ (LENGTH(64) - 1))
          \<le> sint (signed_drop_bit 2 (5 * M * M)) + sint (signed_drop_bit 1 (11 * P))"
        unfolding d2 d11 using m p by simp
      show "sint (signed_drop_bit 2 (5 * M * M)) + sint (signed_drop_bit 1 (11 * P))
          < 2 ^ (LENGTH(64) - 1)"
        unfolding d2 d11 using m p by simp
    qed
    then show ?thesis by (simp only: d2 d11)
  qed
  have "Convert_OFF2 TEMP = signed_drop_bit 1 (5 * M * M) + 7 * P"
    "Convert_SENS2 TEMP = signed_drop_bit 2 (5 * M * M) + signed_drop_bit 1 (11 * P)"
    using cold
    by (simp_all only: Convert_OFF2_def Convert_SENS2_def Convert_TEMPP2_def Let_def M_def P_def if_True)
  with off2 sens2 show ?thesis
    by (simp only: m_def p_def t_def power2_eq_square)
qed

section \<open>Running the driver: unfolding lemmas\<close>

lemmas hal_defs = HAL_GPIO_WritePin_def HAL_Delay_def HAL_SPI_Transmit_def HAL_SPI_Receive_def
  enableCS_MS5611_def disableCS_MS5611_def
lemmas cmd_defs = RESET_COMMAND_def PROM_READ_def CONVERT_D1_COMMAND_def CONVERT_D2_COMMAND_def READ_ADC_COMMAND_def
lemmas mem_defs = get_word_def set_word_def word_bytes_def bytes_word_def store_bytes_def swap_word_def

lemmas run_defs =
  MS5611_Init_def MS5611PromRead_def MS5611_ADC_Read_def
  MS5611_Pressure_Conversion_def MS5611_Temperature_Conversion_def
  PromRead_read_loop.simps PromRead_swap_loop.simps hal_defs cmd_defs mem_defs
  sensor_def no_sensor_def unplugged_after_def handler0_def zero_prom_def datasheet_prom_def
  reset_transaction_def prom_transaction_def rx_point_def Let_def upt_rec

lemma upt_3: "[0..<3] = [0, 1, 2]" by (simp add: upt_rec)
lemma upt_2: "[0..<2] = [0, 1]" by (simp add: upt_rec)

text \<open>The first loop of \<open>MS5611PromRead\<close>, unfolded once.\<close>

lemma read_loop_done:
  "\<not> address < 8 \<Longrightarrow> PromRead_read_loop bus h address prom tr = (None, prom, tr)"
  by (subst PromRead_read_loop.simps) simp

lemma read_loop_step:
  "address < 8 \<Longrightarrow> PromRead_read_loop bus h address prom tr =
     (let tx = tr @ [Ev_GPIO_WritePin (CS_GPIOport h) (CS_GPIOpin h) GPIO_PIN_RESET,
                     Ev_SPI_Transmit (SPIhandler h) [PROM_READ address] 10];
          rx = tx @ [Ev_SPI_Receive (SPIhandler h) 2 10];
          bytes = map (rx_byte bus rx)
                    [0..<(if rx_status bus rx = HAL_OK then 2 else min 2 (rx_count bus rx))];
          prom1 = set_word prom address (store_bytes bytes (get_word prom address));
          up = [Ev_GPIO_WritePin (CS_GPIOport h) (CS_GPIOpin h) GPIO_PIN_SET]
      in if tx_status bus tx \<noteq> HAL_OK then (Some MS5611_HAL_ERROR, prom, tx @ up)
         else if rx_status bus rx \<noteq> HAL_OK then (Some MS5611_HAL_ERROR, prom1, rx @ up)
         else PromRead_read_loop bus h (address + 1) prom1 (rx @ up))"
  by (subst PromRead_read_loop.simps) (simp add: hal_defs Let_def)

lemma read_loop_status:
  "fst (PromRead_read_loop bus h a prom tr) = None
     \<or> fst (PromRead_read_loop bus h a prom tr) = Some MS5611_HAL_ERROR"
proof (induction "8 - a" arbitrary: a prom tr)
  case 0
  then show ?case by (simp add: read_loop_done)
next
  case (Suc n)
  then have lt: "a < 8" and n: "n = 8 - (a + 1)" by simp_all
  show ?case
    using Suc.hyps(1) [OF n] lt by (simp add: read_loop_step Let_def)
qed

lemma Init_unfold:
  "MS5611_Init bus h prom tr =
     (if tx_status bus (tr @ take 2 (reset_transaction h)) \<noteq> HAL_OK
      then (MS5611_HAL_ERROR, prom,
            tr @ take 2 (reset_transaction h)
               @ [Ev_GPIO_WritePin (CS_GPIOport h) (CS_GPIOpin h) GPIO_PIN_SET])
      else
        (let pr = MS5611PromRead bus h prom (tr @ reset_transaction h)
         in (if off (fst (snd pr)) = 0 \<or> tref (fst (snd pr)) = 0xFF
             then MS5611_STATE_FAILED else MS5611_STATE_READY,
             fst (snd pr), snd (snd pr))))"
  by (simp add: MS5611_Init_def hal_defs cmd_defs reset_transaction_def Let_def case_prod_beta)

section \<open>MS5611\_ADC\_Read\<close>

lemma adc_or_plus:
  "push_bit 16 (ucast (b0 :: uint8_t)) OR push_bit 8 (ucast (b1 :: uint8_t)) OR ucast (b2 :: uint8_t)
     = (push_bit 16 (ucast b0) + (push_bit 8 (ucast b1) + ucast b2) :: uint32_t)"
proof -
  have "push_bit 8 (ucast b1) + ucast b2 = (push_bit 8 (ucast b1) OR ucast b2 :: uint32_t)"
    by (rule disjunctive_add) (auto simp: bit_simps dest: bit_imp_le_length)
  moreover have "push_bit 16 (ucast b0) + (push_bit 8 (ucast b1) OR ucast b2)
      = (push_bit 16 (ucast b0) OR (push_bit 8 (ucast b1) OR ucast b2) :: uint32_t)"
    by (rule disjunctive_add) (auto simp: bit_simps dest: bit_imp_le_length)
  ultimately show ?thesis by simp
qed

lemma adc_value:
  "unat (push_bit 16 (ucast (b0 :: uint8_t)) OR push_bit 8 (ucast (b1 :: uint8_t))
           OR ucast (b2 :: uint8_t) :: uint32_t)
     = 65536 * unat b0 + 256 * unat b1 + unat b2"
proof -
  have b: "unat b0 < 256" "unat b1 < 256" "unat b2 < 256"
    using unsigned_less [of b0, where ?'a = nat] unsigned_less [of b1, where ?'a = nat]
      unsigned_less [of b2, where ?'a = nat]
    by simp_all
  show ?thesis
    unfolding adc_or_plus using b
    by (simp add: unat_word_ariths unsigned_push_bit_eq unsigned_ucast_eq push_bit_eq_mult
        take_bit_eq_mod)
qed

text \<open>
  C6: when \<open>MS5611_ADC_Read\<close> succeeds, it has selected the sensor, transmitted the one
  byte 0x00, received exactly three bytes and released the sensor, and it stores
  \<open>(byte0 << 16) | (byte1 << 8) | byte2\<close>, the 24-bit number whose most significant
  byte is the first byte received.
\<close>

theorem MS5611_ADC_Read_success:
  assumes "fst (MS5611_ADC_Read bus h raw_data tr) = MS5611_STATE_READY"
  shows
    "(let rx = tr @ [Ev_GPIO_WritePin (CS_GPIOport h) (CS_GPIOpin h) GPIO_PIN_RESET,
                     Ev_SPI_Transmit (SPIhandler h) [0x00] 10,
                     Ev_SPI_Receive (SPIhandler h) 3 10];
          byte0 = rx_byte bus rx 0; byte1 = rx_byte bus rx 1; byte2 = rx_byte bus rx 2;
          val = push_bit 16 (ucast byte0) OR push_bit 8 (ucast byte1) OR ucast byte2
      in MS5611_ADC_Read bus h raw_data tr =
           (MS5611_STATE_READY, val,
            rx @ [Ev_GPIO_WritePin (CS_GPIOport h) (CS_GPIOpin h) GPIO_PIN_SET])
         \<and> unat val = 65536 * unat byte0 + 256 * unat byte1 + unat byte2)"
  using assms
  by (simp add: MS5611_ADC_Read_def hal_defs cmd_defs Let_def upt_3 adc_value split: if_splits)

theorem MS5611_ADC_Read_success_witness:
  "fst (MS5611_ADC_Read (sensor datasheet_prom 8569150) handler0 0 []) = MS5611_STATE_READY
   \<and> MS5611_ADC_Read (sensor datasheet_prom 8569150) handler0 0 [] =
       (MS5611_STATE_READY, push_bit 16 0x82 OR push_bit 8 0xC1 OR 0x3E,
        [Ev_GPIO_WritePin 2 0x10 GPIO_PIN_RESET, Ev_SPI_Transmit 1 [0x00] 10,
         Ev_SPI_Receive 1 3 10, Ev_GPIO_WritePin 2 0x10 GPIO_PIN_SET])
   \<and> (push_bit 16 0x82 OR push_bit 8 0xC1 OR 0x3E :: uint32_t) = 8569150"
proof -
  have ok: "fst (MS5611_ADC_Read (sensor datasheet_prom 8569150) handler0 0 [])
      = MS5611_STATE_READY"
    by (simp add: run_defs)
  have bytes:
    "rx_byte (sensor datasheet_prom 8569150)
       [Ev_GPIO_WritePin 2 0x10 GPIO_PIN_RESET, Ev_SPI_Transmit 1 [0x00] 10,
        Ev_SPI_Receive 1 3 10] 0 = 0x82"
    "rx_byte (sensor datasheet_prom 8569150)
       [Ev_GPIO_WritePin 2 0x10 GPIO_PIN_RESET, Ev_SPI_Transmit 1 [0x00] 10,
        Ev_SPI_Receive 1 3 10] 1 = 0xC1"
    "rx_byte (sensor datasheet_prom 8569150)
       [Ev_GPIO_WritePin 2 0x10 GPIO_PIN_RESET, Ev_SPI_Transmit 1 [0x00] 10,
        Ev_SPI_Receive 1 3 10] 2 = 0x3E"
    by (simp_all add: run_defs)
  have h: "CS_GPIOport handler0 = 2" "CS_GPIOpin handler0 = 0x10" "SPIhandler handler0 = 1"
    by (simp_all add: handler0_def)
  from MS5611_ADC_Read_success [OF ok] bytes h ok show ?thesis
    by (simp add: Let_def)
qed

text \<open>
  C10: whenever \<open>MS5611_ADC_Read\<close> returns the bus error, the cell \<open>*raw_data\<close> holds
  what it held before the call; the cell changes only when the call returns
  \<open>MS5611_STATE_READY\<close>, after the transmit and the receive have both succeeded.
\<close>

theorem MS5611_ADC_Read_error_keeps_raw_data:
  "(fst (MS5611_ADC_Read bus h raw_data tr) = MS5611_HAL_ERROR
      \<longrightarrow> fst (snd (MS5611_ADC_Read bus h raw_data tr)) = raw_data)
   \<and> (fst (snd (MS5611_ADC_Read bus h raw_data tr)) \<noteq> raw_data
      \<longrightarrow> fst (MS5611_ADC_Read bus h raw_data tr) = MS5611_STATE_READY
        \<and> tx_status bus
             (tr @ [Ev_GPIO_WritePin (CS_GPIOport h) (CS_GPIOpin h) GPIO_PIN_RESET,
                    Ev_SPI_Transmit (SPIhandler h) [0x00] 10]) = HAL_OK
        \<and> rx_status bus
             (tr @ [Ev_GPIO_WritePin (CS_GPIOport h) (CS_GPIOpin h) GPIO_PIN_RESET,
                    Ev_SPI_Transmit (SPIhandler h) [0x00] 10,
                    Ev_SPI_Receive (SPIhandler h) 3 10]) = HAL_OK)"
  by (simp add: MS5611_ADC_Read_def hal_defs cmd_defs Let_def)

theorem MS5611_ADC_Read_error_keeps_raw_data_witness:
  "fst (MS5611_ADC_Read (unplugged_after 2 (sensor datasheet_prom 8569150)) handler0 77 [])
     = MS5611_HAL_ERROR
   \<and> fst (snd (MS5611_ADC_Read (unplugged_after 2 (sensor datasheet_prom 8569150)) handler0 77 []))
     = 77"
proof -
  have err: "fst (MS5611_ADC_Read (unplugged_after 2 (sensor datasheet_prom 8569150))
                handler0 77 []) = MS5611_HAL_ERROR"
    by (simp add: run_defs)
  from MS5611_ADC_Read_error_keeps_raw_data
         [of "unplugged_after 2 (sensor datasheet_prom 8569150)" handler0 77 "[]"] err
  show ?thesis by simp
qed

section \<open>MS5611PromRead\<close>

lemma get_set_word:
  "i < 8 \<Longrightarrow> j < 8 \<Longrightarrow> get_word (set_word prom i w) j = (if j = i then w else get_word prom j)"
  by (simp add: get_word_def set_word_def) arith

lemma store_two_bytes: "store_bytes [b0, b1] w = bytes_word [b0, b1]"
  by (simp add: store_bytes_def word_bytes_def)

lemma swap_bytes_word: "swap_word (bytes_word [b0, b1]) = push_bit 8 (ucast b0) OR ucast b1"
  unfolding swap_word_def word_bytes_def bytes_word_def Let_def
  apply simp
  apply (rule bit_word_eqI)
  apply (auto simp: bit_simps dest: bit_imp_le_length)
  done

lemma swap_loop_words:
  "i < 8 \<Longrightarrow> get_word (PromRead_swap_loop a prom) i =
     (if a \<le> i then swap_word (get_word prom i) else get_word prom i)"
proof (induction "8 - a" arbitrary: a prom)
  case 0
  then show ?case by (subst PromRead_swap_loop.simps) simp
next
  case (Suc n)
  then have lt: "a < 8" and n: "n = 8 - (a + 1)" by simp_all
  have "PromRead_swap_loop a prom =
      PromRead_swap_loop (a + 1) (set_word prom a (swap_word (get_word prom a)))"
    using lt by (subst PromRead_swap_loop.simps) simp
  then show ?case
    using Suc.hyps(1) [OF n Suc.prems] lt Suc.prems
    by (cases "i = a") (auto simp: get_set_word)
qed

lemma read_loop_success:
  assumes "fst (PromRead_read_loop bus h a prom tr) = None"
  shows "snd (snd (PromRead_read_loop bus h a prom tr))
           = tr @ concat (map (prom_transaction h) [a..<8])
     \<and> (\<forall>i<8. get_word (fst (snd (PromRead_read_loop bus h a prom tr))) i =
          (if a \<le> i
           then bytes_word [rx_byte bus (rx_point h tr a i) 0, rx_byte bus (rx_point h tr a i) 1]
           else get_word prom i))"
  using assms
proof (induction "8 - a" arbitrary: a prom tr)
  case 0
  then show ?case by (simp add: read_loop_done)
next
  case (Suc n)
  then have lt: "a < 8" and n: "n = 8 - (a + 1)" by simp_all
  define rx where "rx = tr @ take 3 (prom_transaction h a)"
  define tr1 where "tr1 = tr @ prom_transaction h a"
  define prom1 where "prom1 = set_word prom a (bytes_word [rx_byte bus rx 0, rx_byte bus rx 1])"
  have ok: "tx_status bus (tr @ take 2 (prom_transaction h a)) = HAL_OK \<and> rx_status bus rx = HAL_OK"
    using Suc.prems lt
    by (simp add: read_loop_step Let_def rx_def prom_transaction_def PROM_READ_def split: if_splits)
  have step: "PromRead_read_loop bus h a prom tr = PromRead_read_loop bus h (a + 1) prom1 tr1"
    using lt ok
    by (simp add: read_loop_step Let_def rx_def tr1_def prom1_def prom_transaction_def
        PROM_READ_def upt_2 store_two_bytes)
  have none: "fst (PromRead_read_loop bus h (a + 1) prom1 tr1) = None"
    using Suc.prems step by simp
  note IH = Suc.hyps(1) [OF n none]
  have upt: "[a..<8] = a # [a + 1..<8]"
    using lt by (simp add: upt_conv_Cons)
  have tr: "snd (snd (PromRead_read_loop bus h a prom tr)) = tr @ concat (map (prom_transaction h) [a..<8])"
    using IH by (simp add: step tr1_def upt)
  have words: "get_word (fst (snd (PromRead_read_loop bus h a prom tr))) i =
          (if a \<le> i
           then bytes_word [rx_byte bus (rx_point h tr a i) 0, rx_byte bus (rx_point h tr a i) 1]
           else get_word prom i)" if i: "i < 8" for i
  proof (cases "a + 1 \<le> i")
    case True
    then have "[a..<i] = a # [a + 1..<i]" by (simp add: upt_conv_Cons)
    then have "rx_point h tr1 (a + 1) i = rx_point h tr a i"
      by (simp add: rx_point_def tr1_def)
    then show ?thesis
      using IH i True by (simp add: step)
  next
    case False
    have "get_word (fst (snd (PromRead_read_loop bus h a prom tr))) i = get_word prom1 i"
      using IH i False by (simp add: step)
    moreover have "rx_point h tr a a = rx"
      by (simp add: rx_point_def rx_def)
    ultimately show ?thesis
      using i lt False by (cases "i = a") (auto simp: prom1_def get_set_word)
  qed
  from tr words show ?case by blast
qed

text \<open>
  C5: when \<open>MS5611PromRead\<close> succeeds it has performed exactly eight transactions, in
  order; transaction \<open>i\<close> (0 to 7) selects the sensor, transmits the one byte
  \<open>0xA0 | (i << 1)\<close>, receives two bytes and releases the sensor. Word \<open>i\<close> of the
  table then holds the two bytes received for it, swapped: the first byte received is
  its high byte, the second its low byte.
\<close>

theorem MS5611PromRead_eight_transactions:
  assumes "fst (MS5611PromRead bus h prom tr) = MS5611_STATE_READY"
  shows "snd (snd (MS5611PromRead bus h prom tr))
           = tr @ concat (map (prom_transaction h) [0..<8])
     \<and> (\<forall>i<8. get_word (fst (snd (MS5611PromRead bus h prom tr))) i =
           push_bit 8 (ucast (rx_byte bus (rx_point h tr 0 i) 0))
             OR ucast (rx_byte bus (rx_point h tr 0 i) 1))"
proof -
  have none: "fst (PromRead_read_loop bus h 0 prom tr) = None"
    using assms read_loop_status [of bus h 0 prom tr]
    by (auto simp: MS5611PromRead_def split: prod.splits option.splits)
  then have eq: "MS5611PromRead bus h prom tr =
      (MS5611_STATE_READY, PromRead_swap_loop 0 (fst (snd (PromRead_read_loop bus h 0 prom tr))),
       snd (snd (PromRead_read_loop bus h 0 prom tr)))"
    by (auto simp: MS5611PromRead_def split: prod.splits option.splits)
  show ?thesis
    using read_loop_success [OF none]
    by (simp add: eq swap_loop_words swap_bytes_word)
qed

theorem MS5611PromRead_eight_transactions_witness:
  "fst (MS5611PromRead (sensor datasheet_prom 0) handler0 zero_prom []) = MS5611_STATE_READY
   \<and> snd (snd (MS5611PromRead (sensor datasheet_prom 0) handler0 zero_prom []))
       = concat (map (prom_transaction handler0) [0..<8])
   \<and> get_word (fst (snd (MS5611PromRead (sensor datasheet_prom 0) handler0 zero_prom []))) 2
       = push_bit 8 (ucast (0x90 :: uint8_t)) OR ucast (0x3C :: uint8_t)
   \<and> fst (snd (MS5611PromRead (sensor datasheet_prom 0) handler0 zero_prom [])) = datasheet_prom"
proof -
  have ok: "fst (MS5611PromRead (sensor datasheet_prom 0) handler0 zero_prom []) = MS5611_STATE_READY"
    by (simp add: run_defs)
  have bytes: "rx_byte (sensor datasheet_prom 0) (rx_point handler0 [] 0 2) 0 = 0x90"
    "rx_byte (sensor datasheet_prom 0) (rx_point handler0 [] 0 2) 1 = 0x3C"
    by (simp_all add: run_defs)
  have prom: "fst (snd (MS5611PromRead (sensor datasheet_prom 0) handler0 zero_prom [])) = datasheet_prom"
    by (simp add: run_defs)
  from MS5611PromRead_eight_transactions [OF ok] bytes ok prom show ?thesis
    by simp
qed

section \<open>MS5611\_Init\<close>

text \<open>
  C9: \<open>MS5611_Init\<close> drops the status of \<open>MS5611PromRead\<close>. Once the reset command
  has been transmitted (the first two events of the reset transaction are the select
  and that transmit), its result is decided by the offset and reference-temperature
  words of whatever table \<open>MS5611PromRead\<close> left, whether it succeeded or not; it is
  never the bus error, and it is \<open>MS5611_STATE_READY\<close> in a run where
  \<open>MS5611PromRead\<close> returned the bus error.
\<close>

theorem MS5611_Init_ignores_PromRead_status:
  "(tx_status bus (tr @ take 2 (reset_transaction h)) = HAL_OK \<longrightarrow>
      MS5611_Init bus h prom tr =
        (let pr = MS5611PromRead bus h prom (tr @ reset_transaction h)
         in (if off (fst (snd pr)) = 0 \<or> tref (fst (snd pr)) = 0xFF
             then MS5611_STATE_FAILED else MS5611_STATE_READY,
             fst (snd pr), snd (snd pr)))
      \<and> fst (MS5611_Init bus h prom tr) \<noteq> MS5611_HAL_ERROR)
   \<and> (\<exists>bus' h' prom' tr'.
        fst (MS5611PromRead bus' h' prom' (tr' @ reset_transaction h')) = MS5611_HAL_ERROR
        \<and> fst (MS5611_Init bus' h' prom' tr') = MS5611_STATE_READY)"
proof -
  have "fst (MS5611PromRead (unplugged_after 29 (sensor datasheet_prom 0)) handler0 zero_prom
              ([] @ reset_transaction handler0)) = MS5611_HAL_ERROR
        \<and> fst (MS5611_Init (unplugged_after 29 (sensor datasheet_prom 0)) handler0 zero_prom [])
            = MS5611_STATE_READY"
    by (simp add: run_defs)
  then have "\<exists>bus' h' prom' tr'.
        fst (MS5611PromRead bus' h' prom' (tr' @ reset_transaction h')) = MS5611_HAL_ERROR
        \<and> fst (MS5611_Init bus' h' prom' tr') = MS5611_STATE_READY"
    by blast
  then show ?thesis
    by (simp add: Init_unfold Let_def)
qed

theorem MS5611_Init_ignores_PromRead_status_witness:
  "tx_status (unplugged_after 33 (sensor datasheet_prom 0)) (take 2 (reset_transaction handler0)) = HAL_OK
   \<and> fst (MS5611PromRead (unplugged_after 33 (sensor datasheet_prom 0)) handler0 zero_prom
            (reset_transaction handler0)) = MS5611_HAL_ERROR
   \<and> fst (MS5611_Init (unplugged_after 33 (sensor datasheet_prom 0)) handler0 zero_prom [])
       = MS5611_STATE_READY"
proof -
  have ok: "tx_status (unplugged_after 33 (sensor datasheet_prom 0))
              ([] @ take 2 (reset_transaction handler0)) = HAL_OK"
    by (simp add: run_defs)
  have pr: "MS5611PromRead (unplugged_after 33 (sensor datasheet_prom 0)) handler0 zero_prom
            (reset_transaction handler0)
        = (MS5611_HAL_ERROR,
           \<lparr> reserved = 0, sens = 0xBF9C, off = 0x3C90, tcs = 0x155B, tco = 0xF25A,
             tref = 0xB882, tempsens = 0x986E, crc = 0 \<rparr>,
           reset_transaction handler0 @ concat (map (prom_transaction handler0) [0..<7])
             @ take 2 (prom_transaction handler0 7) @ drop 3 (prom_transaction handler0 7))"
    by (simp add: run_defs)
  from MS5611_Init_ignores_PromRead_status
         [of "unplugged_after 33 (sensor datasheet_prom 0)" "[]" handler0 zero_prom]
       ok pr
  show ?thesis by (simp add: Let_def)
qed

text \<open>
  C2 fails on the code: the check compares the reference temperature with 0xff, not
  with 0xFFFF. With no sensor on the bus every word reads 0xFFFF, so the table has
  reference temperature 0xFFFF, and \<open>MS5611_Init\<close> returns \<open>MS5611_STATE_READY\<close>.
\<close>

theorem MS5611_Init_accepts_tref_0xFFFF:
  "MS5611_Init no_sensor handler0 zero_prom [] =
     (MS5611_STATE_READY,
      \<lparr> reserved = 0xFFFF, sens = 0xFFFF, off = 0xFFFF, tcs = 0xFFFF, tco = 0xFFFF,
        tref = 0xFFFF, tempsens = 0xFFFF, crc = 0xFFFF \<rparr>,
      reset_transaction handler0 @ concat (map (prom_transaction handler0) [0..<8]))"
  by (simp add: run_defs)

text \<open>The half of C2 that holds: a table with offset 0 is never reported ready.\<close>

lemma MS5611_Init_offset_zero:
  "off (fst (snd (MS5611_Init bus h prom tr))) = 0
     \<Longrightarrow> tx_status bus (tr @ take 2 (reset_transaction h)) = HAL_OK
     \<Longrightarrow> fst (MS5611_Init bus h prom tr) = MS5611_STATE_FAILED"
  by (simp add: Init_unfold Let_def)

text \<open>What the check does catch: a reference temperature of 0xff.\<close>

lemma MS5611_Init_tref_0xff:
  "tref (fst (snd (MS5611_Init bus h prom tr))) = 0xFF
     \<Longrightarrow> tx_status bus (tr @ take 2 (reset_transaction h)) = HAL_OK
     \<Longrightarrow> fst (MS5611_Init bus h prom tr) = MS5611_STATE_FAILED"
  by (simp add: Init_unfold Let_def)

section \<open>Chip select and bus errors\<close>

lemma cs_framed_append:
  "cs_framed h selected es \<Longrightarrow> cs_framed h False es' \<Longrightarrow> cs_framed h selected (es @ es')"
  by (induction h selected es rule: cs_framed.induct) (auto split: GPIO_PinState.splits)

lemma read_loop_events:
  "\<exists>es. snd (snd (PromRead_read_loop bus h a prom tr)) = tr @ es
     \<and> list_all hardcoded_timeout es \<and> cs_framed h False es"
proof (induction "8 - a" arbitrary: a prom tr)
  case 0
  then show ?case by (simp add: read_loop_done)
next
  case (Suc n)
  then have lt: "a < 8" and n: "n = 8 - (a + 1)" by simp_all
  define tx where "tx = tr @ [Ev_GPIO_WritePin (CS_GPIOport h) (CS_GPIOpin h) GPIO_PIN_RESET,
                     Ev_SPI_Transmit (SPIhandler h) [PROM_READ a] 10]"
  define rx where "rx = tx @ [Ev_SPI_Receive (SPIhandler h) 2 10]"
  define up where "up = [Ev_GPIO_WritePin (CS_GPIOport h) (CS_GPIOpin h) GPIO_PIN_SET]"
  define prom1 where "prom1 = set_word prom a (store_bytes (map (rx_byte bus rx)
                    [0..<(if rx_status bus rx = HAL_OK then 2 else min 2 (rx_count bus rx))]) (get_word prom a))"
  have step: "PromRead_read_loop bus h a prom tr =
      (if tx_status bus tx \<noteq> HAL_OK then (Some MS5611_HAL_ERROR, prom, tx @ up)
         else if rx_status bus rx \<noteq> HAL_OK then (Some MS5611_HAL_ERROR, prom1, rx @ up)
         else PromRead_read_loop bus h (a + 1) prom1 (rx @ up))"
    using lt by (simp add: read_loop_step Let_def tx_def rx_def up_def prom1_def)
  show ?case
  proof (cases "tx_status bus tx = HAL_OK \<and> rx_status bus rx = HAL_OK")
    case False
    then show ?thesis
      by (auto simp: step tx_def rx_def up_def)
  next
    case True
    from Suc.hyps(1) [OF n, of prom1 "rx @ up"]
    obtain es where es: "snd (snd (PromRead_read_loop bus h (a + 1) prom1 (rx @ up))) = (rx @ up) @ es"
      "list_all hardcoded_timeout es" "cs_framed h False es"
      by blast
    have "snd (snd (PromRead_read_loop bus h a prom tr)) = tr @ (prom_transaction h a @ es)"
      using True es(1) by (simp add: step tx_def rx_def up_def prom_transaction_def PROM_READ_def)
    moreover have "list_all hardcoded_timeout (prom_transaction h a @ es)"
      using es(2) by (simp add: prom_transaction_def)
    moreover have "cs_framed h False (prom_transaction h a @ es)"
      using es(3) by (simp add: prom_transaction_def)
    ultimately show ?thesis by blast
  qed
qed

lemma PromRead_events:
  "\<exists>es. snd (snd (MS5611PromRead bus h prom tr)) = tr @ es
     \<and> list_all hardcoded_timeout es \<and> cs_framed h False es"
  using read_loop_events [of bus h 0 prom tr]
  by (auto simp: MS5611PromRead_def split: prod.splits option.splits)

lemma Init_events:
  "\<exists>es. snd (snd (MS5611_Init bus h prom tr)) = tr @ es
     \<and> list_all hardcoded_timeout es \<and> cs_framed h False es"
proof -
  define r where "r = [Ev_GPIO_WritePin (CS_GPIOport h) (CS_GPIOpin h) GPIO_PIN_RESET,
     Ev_SPI_Transmit (SPIhandler h) [RESET_COMMAND] 10, Ev_Delay 3,
     Ev_GPIO_WritePin (CS_GPIOport h) (CS_GPIOpin h) GPIO_PIN_SET]"
  obtain es where es: "snd (snd (MS5611PromRead bus h prom (tr @ r))) = (tr @ r) @ es"
      "list_all hardcoded_timeout es" "cs_framed h False es"
    using PromRead_events [of bus h prom "tr @ r"] by blast
  show ?thesis
  proof (cases "tx_status bus (tr @ take 2 r) = HAL_OK")
    case False
    then show ?thesis
      by (simp add: MS5611_Init_def hal_defs Let_def r_def)
  next
    case True
    have "snd (snd (MS5611_Init bus h prom tr)) = tr @ (r @ es)"
      using True es(1) by (simp add: MS5611_Init_def hal_defs Let_def r_def case_prod_beta)
    moreover have "list_all hardcoded_timeout (r @ es)"
      using es(2) by (simp add: r_def)
    moreover have "cs_framed h False (r @ es)"
      using es(3) by (simp add: r_def)
    ultimately show ?thesis by blast
  qed
qed

lemma Pressure_Conversion_events:
  "\<exists>es. snd (MS5611_Pressure_Conversion bus h osr tr) = tr @ es
     \<and> list_all hardcoded_timeout es \<and> cs_framed h False es"
  by (simp add: MS5611_Pressure_Conversion_def hal_defs Let_def)

lemma Temperature_Conversion_events:
  "\<exists>es. snd (MS5611_Temperature_Conversion bus h osr tr) = tr @ es
     \<and> list_all hardcoded_timeout es \<and> cs_framed h False es"
  by (simp add: MS5611_Temperature_Conversion_def hal_defs Let_def)

lemma ADC_Read_events:
  "\<exists>es. snd (snd (MS5611_ADC_Read bus h raw_data tr)) = tr @ es
     \<and> list_all hardcoded_timeout es \<and> cs_framed h False es"
  by (simp add: MS5611_ADC_Read_def hal_defs Let_def)

lemma transfer_failed_append:
  "transfer_failed bus tr (es @ es') =
     (transfer_failed bus tr es \<or> transfer_failed bus (tr @ es) es')"
  by (induction bus tr es rule: transfer_failed.induct) simp_all

lemma read_loop_failure:
  "\<exists>es. snd (snd (PromRead_read_loop bus h a prom tr)) = tr @ es
     \<and> (transfer_failed bus tr es \<longleftrightarrow>
          fst (PromRead_read_loop bus h a prom tr) = Some MS5611_HAL_ERROR)"
proof (induction "8 - a" arbitrary: a prom tr)
  case 0
  then show ?case by (simp add: read_loop_done)
next
  case (Suc n)
  then have lt: "a < 8" and n: "n = 8 - (a + 1)" by simp_all
  define tx where "tx = tr @ [Ev_GPIO_WritePin (CS_GPIOport h) (CS_GPIOpin h) GPIO_PIN_RESET,
                     Ev_SPI_Transmit (SPIhandler h) [PROM_READ a] 10]"
  define rx where "rx = tx @ [Ev_SPI_Receive (SPIhandler h) 2 10]"
  define up where "up = [Ev_GPIO_WritePin (CS_GPIOport h) (CS_GPIOpin h) GPIO_PIN_SET]"
  define prom1 where "prom1 = set_word prom a (store_bytes (map (rx_byte bus rx)
                    [0..<(if rx_status bus rx = HAL_OK then 2 else min 2 (rx_count bus rx))]) (get_word prom a))"
  have step: "PromRead_read_loop bus h a prom tr =
      (if tx_status bus tx \<noteq> HAL_OK then (Some MS5611_HAL_ERROR, prom, tx @ up)
         else if rx_status bus rx \<noteq> HAL_OK then (Some MS5611_HAL_ERROR, prom1, rx @ up)
         else PromRead_read_loop bus h (a + 1) prom1 (rx @ up))"
    using lt by (simp add: read_loop_step Let_def tx_def rx_def up_def prom1_def)
  show ?case
  proof (cases "tx_status bus tx = HAL_OK \<and> rx_status bus rx = HAL_OK")
    case False
    then show ?thesis
      by (auto simp: step tx_def rx_def up_def)
  next
    case True
    from Suc.hyps(1) [OF n, of prom1 "rx @ up"]
    obtain es where es: "snd (snd (PromRead_read_loop bus h (a + 1) prom1 (rx @ up))) = (rx @ up) @ es"
      "transfer_failed bus (rx @ up) es \<longleftrightarrow>
          fst (PromRead_read_loop bus h (a + 1) prom1 (rx @ up)) = Some MS5611_HAL_ERROR"
      by blast
    have "snd (snd (PromRead_read_loop bus h a prom tr)) = tr @ (prom_transaction h a @ es)"
      using True es(1) by (simp add: step tx_def rx_def up_def prom_transaction_def PROM_READ_def)
    moreover have "transfer_failed bus tr (prom_transaction h a @ es) \<longleftrightarrow>
          fst (PromRead_read_loop bus h a prom tr) = Some MS5611_HAL_ERROR"
      using True es(2)
      by (simp add: transfer_failed_append step)
         (simp add: tx_def rx_def up_def prom_transaction_def PROM_READ_def)
    ultimately show ?thesis by blast
  qed
qed

lemma PromRead_bus_error:
  "\<exists>es. snd (snd (MS5611PromRead bus h prom tr)) = tr @ es
     \<and> (transfer_failed bus tr es \<longleftrightarrow> fst (MS5611PromRead bus h prom tr) = MS5611_HAL_ERROR)"
  using read_loop_failure [of bus h 0 prom tr] read_loop_status [of bus h 0 prom tr]
  by (auto simp: MS5611PromRead_def split: prod.splits option.splits)

lemma Pressure_Conversion_bus_error:
  "\<exists>es. snd (MS5611_Pressure_Conversion bus h osr tr) = tr @ es
     \<and> (transfer_failed bus tr es \<longleftrightarrow>
          fst (MS5611_Pressure_Conversion bus h osr tr) = MS5611_HAL_ERROR)"
  by (simp add: MS5611_Pressure_Conversion_def hal_defs Let_def)

lemma Temperature_Conversion_bus_error:
  "\<exists>es. snd (MS5611_Temperature_Conversion bus h osr tr) = tr @ es
     \<and> (transfer_failed bus tr es \<longleftrightarrow>
          fst (MS5611_Temperature_Conversion bus h osr tr) = MS5611_HAL_ERROR)"
  by (simp add: MS5611_Temperature_Conversion_def hal_defs Let_def)

lemma ADC_Read_bus_error:
  "\<exists>es. snd (snd (MS5611_ADC_Read bus h raw_data tr)) = tr @ es
     \<and> (transfer_failed bus tr es \<longleftrightarrow>
          fst (MS5611_ADC_Read bus h raw_data tr) = MS5611_HAL_ERROR)"
  by (simp add: MS5611_ADC_Read_def hal_defs Let_def)

text \<open>
  C4 fails on the code, for \<open>MS5611_Init\<close>. The sensor answers until word 7 of the
  PROM is to be received; that receive times out. \<open>MS5611_Init\<close> still returns
  \<open>MS5611_STATE_READY\<close>, with a table whose words 1 to 6 are not byte-swapped. (The
  chip select is released after every transaction, as in every operation.)
\<close>

theorem MS5611_Init_ready_after_bus_error:
  "MS5611_Init (unplugged_after 34 (sensor datasheet_prom 0)) handler0 zero_prom [] =
     (MS5611_STATE_READY,
      \<lparr> reserved = 0, sens = 0xBF9C, off = 0x3C90, tcs = 0x155B, tco = 0xF25A,
        tref = 0xB882, tempsens = 0x986E, crc = 0 \<rparr>,
      reset_transaction handler0 @ concat (map (prom_transaction handler0) [0..<8]))
   \<and> rx_status (unplugged_after 34 (sensor datasheet_prom 0))
        (rx_point handler0 (reset_transaction handler0) 0 7) = HAL_TIMEOUT
   \<and> transfer_failed (unplugged_after 34 (sensor datasheet_prom 0)) []
        (reset_transaction handler0 @ concat (map (prom_transaction handler0) [0..<8]))"
  by (simp add: run_defs)

section \<open>The SPI\_Timeout field\<close>

lemma read_loop_SPI_Timeout:
  "PromRead_read_loop bus (h\<lparr>SPI_Timeout := t\<rparr>) a prom tr = PromRead_read_loop bus h a prom tr"
proof (induction "8 - a" arbitrary: a prom tr)
  case 0
  then show ?case by (simp add: read_loop_done)
next
  case (Suc n)
  then have lt: "a < 8" and n: "n = 8 - (a + 1)" by simp_all
  show ?case
    using Suc.hyps(1) [OF n] lt by (simp add: read_loop_step Let_def)
qed

lemma PromRead_SPI_Timeout:
  "MS5611PromRead bus (h\<lparr>SPI_Timeout := t\<rparr>) prom tr = MS5611PromRead bus h prom tr"
  by (simp add: MS5611PromRead_def read_loop_SPI_Timeout)

lemma Init_SPI_Timeout:
  "MS5611_Init bus (h\<lparr>SPI_Timeout := t\<rparr>) prom tr = MS5611_Init bus h prom tr"
  by (simp add: MS5611_Init_def PromRead_SPI_Timeout hal_defs Let_def case_prod_beta)

text \<open>Two handlers that agree on the other three fields differ by an update of \<open>SPI_Timeout\<close>.\<close>

lemma differ_only_in_SPI_Timeout:
  "SPIhandler h1 = SPIhandler h2 \<Longrightarrow> CS_GPIOport h1 = CS_GPIOport h2
     \<Longrightarrow> CS_GPIOpin h1 = CS_GPIOpin h2
     \<Longrightarrow> h2 = h1\<lparr>SPI_Timeout := SPI_Timeout h2\<rparr>"
  for h1 h2 :: MS5611_HW_InitTypeDef
  by simp

lemma events_timeout:
  "\<exists>es. tr' = tr @ es \<and> list_all hardcoded_timeout es \<and> cs_framed h False es
     \<Longrightarrow> \<exists>es. tr' = tr @ es \<and> list_all hardcoded_timeout es"
  by blast

text \<open>
  C8: no operation reads the \<open>SPI_Timeout\<close> field. Two handlers that differ only in
  \<open>SPI_Timeout\<close> give, for every operation and on every bus, the same result, the same
  table or cell and the same trace; and every transfer an operation issues carries the
  timeout 10.
\<close>

theorem SPI_Timeout_never_read:
  "MS5611_Init bus (h\<lparr>SPI_Timeout := t\<rparr>) prom tr = MS5611_Init bus h prom tr
   \<and> MS5611PromRead bus (h\<lparr>SPI_Timeout := t\<rparr>) prom tr = MS5611PromRead bus h prom tr
   \<and> MS5611_Pressure_Conversion bus (h\<lparr>SPI_Timeout := t\<rparr>) osr tr
       = MS5611_Pressure_Conversion bus h osr tr
   \<and> MS5611_Temperature_Conversion bus (h\<lparr>SPI_Timeout := t\<rparr>) osr tr
       = MS5611_Temperature_Conversion bus h osr tr
   \<and> MS5611_ADC_Read bus (h\<lparr>SPI_Timeout := t\<rparr>) raw_data tr = MS5611_ADC_Read bus h raw_data tr
   \<and> (\<exists>es. snd (snd (MS5611_Init bus h prom tr)) = tr @ es \<and> list_all hardcoded_timeout es)
   \<and> (\<exists>es. snd (snd (MS5611PromRead bus h prom tr)) = tr @ es \<and> list_all hardcoded_timeout es)
   \<and> (\<exists>es. snd (MS5611_Pressure_Conversion bus h osr tr) = tr @ es
          \<and> list_all hardcoded_timeout es)
   \<and> (\<exists>es. snd (MS5611_Temperature_Conversion bus h osr tr) = tr @ es
          \<and> list_all hardcoded_timeout es)
   \<and> (\<exists>es. snd (snd (MS5611_ADC_Read bus h raw_data tr)) = tr @ es
          \<and> list_all hardcoded_timeout es)"
proof -
  have "MS5611_Pressure_Conversion bus (h\<lparr>SPI_Timeout := t\<rparr>) osr tr
       = MS5611_Pressure_Conversion bus h osr tr"
    by (simp add: MS5611_Pressure_Conversion_def hal_defs Let_def)
  moreover have "MS5611_Temperature_Conversion bus (h\<lparr>SPI_Timeout := t\<rparr>) osr tr
       = MS5611_Temperature_Conversion bus h osr tr"
    by (simp add: MS5611_Temperature_Conversion_def hal_defs Let_def)
  moreover have "MS5611_ADC_Read bus (h\<lparr>SPI_Timeout := t\<rparr>) raw_data tr
       = MS5611_ADC_Read bus h raw_data tr"
    by (simp add: MS5611_ADC_Read_def hal_defs Let_def)
  ultimately show ?thesis
    using Init_SPI_Timeout [of bus t h prom tr] PromRead_SPI_Timeout [of bus t h prom tr]
      events_timeout [OF Init_events [of bus h prom tr]]
      events_timeout [OF PromRead_events [of bus h prom tr]]
      events_timeout [OF Pressure_Conversion_events [of bus h osr tr]]
      events_timeout [OF Temperature_Conversion_events [of bus h osr tr]]
      events_timeout [OF ADC_Read_events [of bus h raw_data tr]]
    by simp
qed

end
